theory Spec2Isabelle
  imports Complex_Main
begin

section \<open>NetworkPulse: the ping cycle of \<open>pings.py\<close>\<close>

text \<open>
  The program pings every entry of a registry \<open>ping_count\<close> times, writes one CSV row
  per entry and mails the file to one of two recipients. The network, the clock and the
  SMTP server are outside the program; they enter the model as parameters:
  \<^item> \<open>net h k\<close> is what the \<open>k\<close>-th call of \<open>ping(ip)\<close> made for the \<open>h\<close>-th registry
    entry does: it returns \<open>None\<close>, \<open>False\<close> or a delay, or it raises;
  \<^item> \<open>clock h\<close> is what \<open>datetime.now()\<close> on line 65 reads for the \<open>h\<close>-th entry;
  \<^item> \<open>smtp msg\<close> is \<open>None\<close> when the server accepts \<open>msg\<close>, and the text of the exception
    otherwise.
  Delays are exact rationals here, so the rounding of Python's binary floats is not part
  of the model.
\<close>

subsection \<open>Data\<close>

text \<open>An element of \<open>ips\<close>: \<open>{"name": ..., "ip": ...}\<close>.\<close>

record entry =
  name :: string
  ip :: string

text \<open>
  What \<open>ping\<close> can return that is not \<open>None\<close>: \<open>False\<close> or a delay in seconds.
  Python's \<open>None\<close> is \<open>None\<close> of the option type.
\<close>

datatype py_value = PyFalse | PyFloat rat

datatype ping_outcome = Returns "py_value option" | Raises string

record datetime =
  year :: nat
  month :: nat
  day :: nat
  hour :: nat
  minute :: nat
  second :: nat

datatype level = INFO | WARNING | ERROR

type_synonym csv = "string list list"

text \<open>
  The variables of one run of \<open>ping_ips\<close>: the flag, the rows written through \<open>writer\<close>,
  the records handed to \<open>logging\<close>, and the \<open>ping\<close> calls made so far, each as the pair
  of the entry's position and the attempt's number.
\<close>

record cycle =
  all_unreachable :: bool
  writer :: csv
  logging :: "(level \<times> string) list"
  pinged :: "(nat \<times> nat) list"

record email_message =
  Subject :: string
  From :: string
  To :: string
  content :: string
  attachments :: "(csv \<times> string) list"

record config =
  EMAIL_ADDRESS :: string
  REPORT_RECIPIENT_EMAIL :: string
  ERROR_RECIPIENT_EMAIL :: string

datatype py_error = FileNotFoundError string

text \<open>What \<open>send_email\<close> leaves behind: the message it built, the messages the server took, its log.\<close>

record delivery =
  message :: email_message
  outbox :: "email_message list"
  mail_log :: "(level \<times> string) list"

subsection \<open>Formatting\<close>

definition digit :: "nat \<Rightarrow> char" where
  "digit n = ''0123456789'' ! (n mod 10)"

fun dec :: "nat \<Rightarrow> string" where
  "dec n = (if n < 10 then [digit n] else dec (n div 10) @ [digit n])"

declare dec.simps [simp del]

definition pad2 :: "nat \<Rightarrow> string" where
  "pad2 n = [digit (n div 10), digit n]"

definition pad4 :: "nat \<Rightarrow> string" where
  "pad4 n = [digit (n div 1000), digit (n div 100), digit (n div 10), digit n]"

text \<open>\<open>strftime("%Y-%m-%d %H:%M:%S")\<close>, for years of four digits.\<close>

definition strftime_row :: "datetime \<Rightarrow> string" where
  "strftime_row t =
     pad4 (year t) @ ''-'' @ pad2 (month t) @ ''-'' @ pad2 (day t) @ '' '' @
     pad2 (hour t) @ '':'' @ pad2 (minute t) @ '':'' @ pad2 (second t)"

text \<open>\<open>strftime('%Y%m%d_%H%M%S')\<close>.\<close>

definition strftime_file :: "datetime \<Rightarrow> string" where
  "strftime_file t =
     pad4 (year t) @ pad2 (month t) @ pad2 (day t) @ ''_'' @
     pad2 (hour t) @ pad2 (minute t) @ pad2 (second t)"

definition round_half_even :: "rat \<Rightarrow> int" where
  "round_half_even x =
     (let f = \<lfloor>x\<rfloor>; d = x - of_int f
      in if d < 1 / 2 then f else if 1 / 2 < d then f + 1 else if even f then f else f + 1)"

text \<open>The format \<open>:.4f\<close>: four decimals, the nearest value, a tie to the even digit.\<close>

definition fmt4 :: "rat \<Rightarrow> string" where
  "fmt4 x =
     (let q = nat (round_half_even (\<bar>x\<bar> * 10000))
      in (if x < 0 then ''-'' else []) @ dec (q div 10000) @ ''.'' @ pad4 (q mod 10000))"

text \<open>The number Python's arithmetic takes a value for: \<open>False\<close> counts as \<open>0\<close>.\<close>

fun py_num :: "py_value \<Rightarrow> rat" where
  "py_num PyFalse = 0"
| "py_num (PyFloat x) = x"

text \<open>\<open>sum(latencies) / len(latencies)\<close>, only evaluated on a non-empty list.\<close>

definition average :: "py_value list \<Rightarrow> rat" where
  "average latencies = sum_list (map py_num latencies) / of_nat (length latencies)"

text \<open>\<open>range(ping_count)\<close>: empty when \<open>ping_count\<close> is not positive.\<close>

definition range_py :: "int \<Rightarrow> nat list" where
  "range_py n = [0..<nat n]"

text \<open>\<open>os.path.basename\<close>: what follows the last \<open>/\<close>.\<close>

definition basename :: "string \<Rightarrow> string" where
  "basename p = rev (takeWhile (\<lambda>c. c \<noteq> CHR ''/'') (rev p))"

subsection \<open>\<open>ping_ips\<close>\<close>

definition log_record :: "level \<Rightarrow> string \<Rightarrow> cycle \<Rightarrow> cycle" where
  "log_record l m s = s\<lparr>logging := logging s @ [(l, m)]\<rparr>"

definition writerow :: "string list \<Rightarrow> cycle \<Rightarrow> cycle" where
  "writerow r s = s\<lparr>writer := writer s @ [r]\<rparr>"

text \<open>
  Lines 56 to 63: the \<open>for\<close> loop inside \<open>try\<close>. An exception leaves the loop with the
  latencies collected so far; the first component of the result is its text.
\<close>

fun try_pings ::
  "(nat \<Rightarrow> ping_outcome) \<Rightarrow> nat \<Rightarrow> nat list \<Rightarrow> py_value list \<times> cycle
    \<Rightarrow> string option \<times> py_value list \<times> cycle" where
  "try_pings reply h [] (latencies, s) = (None, latencies, s)"
| "try_pings reply h (k # ks) (latencies, s) =
     (let s1 = s\<lparr>pinged := pinged s @ [(h, k)]\<rparr>
      in case reply k of
           Raises e \<Rightarrow> (Some e, latencies, s1)
         | Returns response_time \<Rightarrow>
             (case response_time of
                None \<Rightarrow> try_pings reply h ks (latencies, s1)
              | Some v \<Rightarrow> try_pings reply h ks (latencies @ [v], s1\<lparr>all_unreachable := False\<rparr>)))"

text \<open>Lines 52 to 72: the body of \<open>for entry in ips\<close>, for the entry at position \<open>h\<close>.\<close>

definition probe_entry ::
  "(nat \<Rightarrow> nat \<Rightarrow> ping_outcome) \<Rightarrow> (nat \<Rightarrow> datetime) \<Rightarrow> int \<Rightarrow> nat \<Rightarrow> entry \<Rightarrow> cycle \<Rightarrow> cycle" where
  "probe_entry net clock ping_count h e s =
     (case try_pings (net h) h (range_py ping_count) ([], s) of
        (exc, latencies, s1) \<Rightarrow>
          let s2 = (case exc of
                      None \<Rightarrow> s1
                    | Some err \<Rightarrow>
                        log_record ERROR
                          (''Error pinging '' @ name e @ '' ('' @ ip e @ ''): '' @ err) s1);
              current_time = strftime_row (clock h)
          in if latencies \<noteq> [] then
               let average_latency = average latencies
               in writerow [name e, ip e, fmt4 average_latency, current_time]
                    (log_record INFO
                       (name e @ '' ('' @ ip e @ '') average response time is '' @
                        fmt4 average_latency @ '' seconds at '' @ current_time) s2)
             else
               writerow [name e, ip e, ''Unreachable'', current_time]
                 (log_record WARNING
                    (name e @ '' ('' @ ip e @ '') is unreachable at '' @ current_time) s2))"

fun for_entries ::
  "(nat \<Rightarrow> nat \<Rightarrow> ping_outcome) \<Rightarrow> (nat \<Rightarrow> datetime) \<Rightarrow> int \<Rightarrow> nat \<Rightarrow> entry list \<Rightarrow> cycle \<Rightarrow> cycle" where
  "for_entries net clock ping_count h [] s = s"
| "for_entries net clock ping_count h (e # es) s =
     for_entries net clock ping_count (Suc h) es (probe_entry net clock ping_count h e s)"

text \<open>
  The result is the final state: its field \<open>all_unreachable\<close> is the value returned, its
  field \<open>writer\<close> the content of \<open>output_file\<close>.
\<close>

definition ping_ips ::
  "(nat \<Rightarrow> nat \<Rightarrow> ping_outcome) \<Rightarrow> (nat \<Rightarrow> datetime) \<Rightarrow> entry list \<Rightarrow> int \<Rightarrow> cycle" where
  "ping_ips net clock ips ping_count =
     for_entries net clock ping_count 0 ips
       \<lparr>all_unreachable = True,
        writer = [[''Name'', ''IP Address'', ''Average Response Time (s)'', ''Time'']],
        logging = [], pinged = []\<rparr>"

subsection \<open>\<open>send_email\<close> and \<open>generate_report\<close>\<close>

definition send_email ::
  "config \<Rightarrow> (email_message \<Rightarrow> string option) \<Rightarrow> (string \<rightharpoonup> csv)
    \<Rightarrow> string \<Rightarrow> string \<Rightarrow> string \<Rightarrow> string \<Rightarrow> py_error + delivery" where
  "send_email cfg smtp files subject body attachment_path recipient =
     (let msg = \<lparr>Subject = subject, From = EMAIL_ADDRESS cfg, To = recipient,
                 content = body, attachments = []\<rparr>;
          attached =
            (if attachment_path \<noteq> [] then
               (case files attachment_path of
                  None \<Rightarrow> Inl (FileNotFoundError attachment_path)
                | Some file_data \<Rightarrow>
                    Inr (msg\<lparr>attachments := [(file_data, basename attachment_path)]\<rparr>))
             else Inr msg)
      in case attached of
           Inl err \<Rightarrow> Inl err
         | Inr m \<Rightarrow>
             (case smtp m of
                None \<Rightarrow>
                  Inr \<lparr>message = m, outbox = [m],
                       mail_log = [(INFO, ''Email sent to '' @ recipient)]\<rparr>
              | Some err \<Rightarrow>
                  Inr \<lparr>message = m, outbox = [],
                       mail_log = [(ERROR, ''Failed to send email to '' @ recipient @ '': '' @ err)]\<rparr>))"

definition report_path :: "datetime \<Rightarrow> string" where
  "report_path t =
     ''C:/Users/kapingura/Documents/BHC/reports/BHC LINK REPORT_'' @ strftime_file t @ ''.csv''"

text \<open>
  \<open>generate_report\<close>: \<open>t0\<close> is the reading of the clock that names the file,
  \<open>ip_addresses\<close> the registry loaded from \<open>ips.json\<close>, \<open>files\<close> the file system before.
\<close>

definition generate_report ::
  "config \<Rightarrow> (nat \<Rightarrow> nat \<Rightarrow> ping_outcome) \<Rightarrow> (nat \<Rightarrow> datetime) \<Rightarrow> (email_message \<Rightarrow> string option)
    \<Rightarrow> datetime \<Rightarrow> entry list \<Rightarrow> (string \<rightharpoonup> csv) \<Rightarrow> py_error + delivery" where
  "generate_report cfg net clock smtp t0 ip_addresses files =
     (let output_file = report_path t0;
          c = ping_ips net clock ip_addresses 5;
          files1 = files(output_file \<mapsto> writer c)
      in if all_unreachable c then
           send_email cfg smtp files1
             ''Ping Report - Error''
             ''All IPs are unreachable or there is no internet access.''
             output_file (ERROR_RECIPIENT_EMAIL cfg)
         else
           send_email cfg smtp files1
             ''Network Status Report''
             ''Please find attached the latest network status report.''
             output_file (REPORT_RECIPIENT_EMAIL cfg))"

subsection \<open>What a run observes\<close>

text \<open>
  The replies that the attempts of one entry meet, in order: \<open>outcomes net ping_count h\<close>.
  From such a list: \<open>successes\<close> are the values that are not \<open>None\<close> among the replies
  before the first exception (a \<open>False\<close> is one of them, as in the source's test
  \<open>is not None\<close>), \<open>raised\<close> is the text of the first exception, and \<open>issued\<close> counts
  the attempts up to and including the first one that raises.
\<close>

definition outcomes :: "(nat \<Rightarrow> nat \<Rightarrow> ping_outcome) \<Rightarrow> int \<Rightarrow> nat \<Rightarrow> ping_outcome list" where
  "outcomes net ping_count h = map (net h) (range_py ping_count)"

fun successes :: "ping_outcome list \<Rightarrow> py_value list" where
  "successes [] = []"
| "successes (Returns None # os) = successes os"
| "successes (Returns (Some v) # os) = v # successes os"
| "successes (Raises e # os) = []"

fun raised :: "ping_outcome list \<Rightarrow> string option" where
  "raised [] = None"
| "raised (Returns r # os) = raised os"
| "raised (Raises e # os) = Some e"

fun issued :: "ping_outcome list \<Rightarrow> nat" where
  "issued [] = 0"
| "issued (Returns r # os) = Suc (issued os)"
| "issued (Raises e # os) = 1"

text \<open>
  The specification's reading of the same replies: an attempt result is a success with a
  latency, or a failure. Only a delay is a latency; \<open>False\<close>, the value by which \<open>ping\<close>
  reports an error, is a failure like \<open>None\<close>. \<open>spec_latencies\<close> are the latencies of the
  attempts that were made and succeeded in this sense.
\<close>

fun spec_latencies :: "ping_outcome list \<Rightarrow> rat list" where
  "spec_latencies [] = []"
| "spec_latencies (Returns None # os) = spec_latencies os"
| "spec_latencies (Returns (Some PyFalse) # os) = spec_latencies os"
| "spec_latencies (Returns (Some (PyFloat x)) # os) = x # spec_latencies os"
| "spec_latencies (Raises e # os) = []"

text \<open>The row of an entry, stated from its successes.\<close>

definition report_row ::
  "(nat \<Rightarrow> nat \<Rightarrow> ping_outcome) \<Rightarrow> (nat \<Rightarrow> datetime) \<Rightarrow> int \<Rightarrow> nat \<Rightarrow> entry \<Rightarrow> string list" where
  "report_row net clock ping_count h e =
     [name e, ip e,
      if successes (outcomes net ping_count h) = [] then ''Unreachable''
      else fmt4 (average (successes (outcomes net ping_count h))),
      strftime_row (clock h)]"

subsection \<open>Scenarios\<close>

definition host_A :: entry where
  "host_A = \<lparr>name = ''A'', ip = ''1.1.1.1''\<rparr>"

definition host_B :: entry where
  "host_B = \<lparr>name = ''B'', ip = ''2.2.2.2''\<rparr>"

definition noon :: datetime where
  "noon = \<lparr>year = 2024, month = 3, day = 9, hour = 12, minute = 0, second = 7\<rparr>"

text \<open>A clock that stands still, and one that moves on by twenty seconds per entry.\<close>

definition clock_fixed :: "nat \<Rightarrow> datetime" where
  "clock_fixed h = noon"

definition clock_ticking :: "nat \<Rightarrow> datetime" where
  "clock_ticking h = noon\<lparr>second := 7 + 20 * h\<rparr>"


text \<open>Every attempt times out.\<close>

definition net_down :: "nat \<Rightarrow> nat \<Rightarrow> ping_outcome" where
  "net_down h k = Returns None"

text \<open>Scenario 1 of the specification: A answers five times, B never.\<close>

definition net_scenario1 :: "nat \<Rightarrow> nat \<Rightarrow> ping_outcome" where
  "net_scenario1 h k =
     (if h = 0 then
        Returns (Some (PyFloat (if k = 1 then 2 / 100 else if k = 3 then 3 / 100 else 1 / 100)))
      else Returns None)"

text \<open>Every attempt returns \<open>False\<close>.\<close>

definition net_false :: "nat \<Rightarrow> nat \<Rightarrow> ping_outcome" where
  "net_false h k = Returns (Some PyFalse)"

text \<open>The first attempt returns \<open>False\<close>, the second answers in 20 ms, the others time out.\<close>

definition net_false_then_answer :: "nat \<Rightarrow> nat \<Rightarrow> ping_outcome" where
  "net_false_then_answer h k =
     (if k = 0 then Returns (Some PyFalse)
      else if k = 1 then Returns (Some (PyFloat (2 / 100)))
      else Returns None)"



definition idle :: cycle where
  "idle = \<lparr>all_unreachable = True, writer = [], logging = [], pinged = []\<rparr>"

section \<open>The loops in closed form\<close>

lemma issued_le: "issued os \<le> length os"
  by (induction os rule: issued.induct) auto

lemma try_pings_closed:
  "try_pings reply h ks (lat, s) =
     (raised (map reply ks), lat @ successes (map reply ks),
      s\<lparr>all_unreachable := all_unreachable s \<and> successes (map reply ks) = [],
        pinged := pinged s @ map (Pair h) (take (issued (map reply ks)) ks)\<rparr>)"
proof (induction ks arbitrary: lat s)
  case Nil
  then show ?case by simp
next
  case (Cons k ks)
  show ?case
  proof (cases "reply k")
    case (Returns r)
    then show ?thesis
      by (cases r) (simp_all add: Cons.IH Let_def)
  next
    case (Raises e)
    then show ?thesis by (simp add: Let_def)
  qed
qed

lemma take_issued_range: "take (issued (map f [0..<n])) [0..<n] = [0..<issued (map f [0..<n])]"
  using issued_le [of "map f [0..<n]"] by simp

lemma try_pings_latencies:
  "try_pings (net h) h (range_py n) ([], s) = (exc, lat, s1) \<Longrightarrow>
     lat = successes (outcomes net n h) \<and>
     all_unreachable s1 = (all_unreachable s \<and> successes (outcomes net n h) = [])"
  by (auto simp: try_pings_closed outcomes_def)

lemma probe_entry_flag:
  "all_unreachable (probe_entry net clock n h e s) =
     (all_unreachable s \<and> successes (outcomes net n h) = [])"
  by (simp add: probe_entry_def try_pings_closed outcomes_def log_record_def writerow_def Let_def
           split: option.split)

lemma probe_entry_writer:
  "writer (probe_entry net clock n h e s) = writer s @ [report_row net clock n h e]"
  by (simp add: probe_entry_def try_pings_closed outcomes_def report_row_def log_record_def
                writerow_def Let_def split: option.split)

lemma probe_entry_pinged:
  "pinged (probe_entry net clock n h e s) =
     pinged s @ map (Pair h) [0..<issued (outcomes net n h)]"
  by (simp add: probe_entry_def try_pings_closed outcomes_def log_record_def writerow_def Let_def
                range_py_def take_issued_range split: option.split)

lemma for_entries_flag:
  "all_unreachable (for_entries net clock n h es s) =
     (all_unreachable s \<and> (\<forall>i<length es. successes (outcomes net n (h + i)) = []))"
proof (induction es arbitrary: h s)
  case Nil
  then show ?case by simp
next
  case (Cons e es)
  show ?case
    by (auto simp: Cons.IH probe_entry_flag less_Suc_eq_0_disj)
qed

lemma for_entries_writer:
  "writer (for_entries net clock n h es s) =
     writer s @ map (\<lambda>i. report_row net clock n (h + i) (es ! i)) [0..<length es]"
proof (induction es arbitrary: h s)
  case Nil
  then show ?case by simp
next
  case (Cons e es)
  have "[0..<length (e # es)] = 0 # map Suc [0..<length es]"
    by (simp add: upt_conv_Cons map_Suc_upt del: upt_Suc)
  then show ?case
    by (simp add: Cons.IH probe_entry_writer comp_def del: upt_Suc)
qed

lemma for_entries_pinged:
  "pinged (for_entries net clock n h es s) =
     pinged s @ concat (map (\<lambda>i. map (Pair (h + i)) [0..<issued (outcomes net n (h + i))])
                         [0..<length es])"
proof (induction es arbitrary: h s)
  case Nil
  then show ?case by simp
next
  case (Cons e es)
  have "[0..<length (e # es)] = 0 # map Suc [0..<length es]"
    by (simp add: upt_conv_Cons map_Suc_upt del: upt_Suc)
  then show ?case
    by (simp add: Cons.IH probe_entry_pinged comp_def del: upt_Suc)
qed

lemma ping_ips_flag:
  "all_unreachable (ping_ips net clock ips n) =
     (\<forall>i<length ips. successes (outcomes net n i) = [])"
  by (simp add: ping_ips_def for_entries_flag)

lemma ping_ips_writer:
  "writer (ping_ips net clock ips n) =
     [''Name'', ''IP Address'', ''Average Response Time (s)'', ''Time''] #
     map (\<lambda>i. report_row net clock n i (ips ! i)) [0..<length ips]"
  by (simp add: ping_ips_def for_entries_writer)

lemma ping_ips_pinged:
  "pinged (ping_ips net clock ips n) =
     concat (map (\<lambda>i. map (Pair i) [0..<issued (outcomes net n i)]) [0..<length ips])"
  by (simp add: ping_ips_def for_entries_pinged)

lemma ping_ips_row:
  "h < length ips \<Longrightarrow> writer (ping_ips net clock ips n) ! Suc h = report_row net clock n h (ips ! h)"
  by (simp add: ping_ips_writer)



lemma mem_pinged:
  "(h, k) \<in> set (pinged (ping_ips net clock ips n)) \<longleftrightarrow>
     h < length ips \<and> k < issued (outcomes net n h)"
  by (fastforce simp: ping_ips_pinged)

subsection \<open>Attempts and exceptions\<close>



lemma successes_mem:
  "k < issued os \<Longrightarrow> os ! k = Returns (Some v) \<Longrightarrow> v \<in> set (successes os)"
proof (induction os arbitrary: k rule: successes.induct)
  case 1
  then show ?case by simp
next
  case (2 os)
  then show ?case by (cases k) auto
next
  case (3 w os)
  then show ?case by (cases k) auto
next
  case (4 e os)
  then show ?case by (cases k) auto
qed

lemma outcomes_nth: "k < nat n \<Longrightarrow> outcomes net n h ! k = net h k"
  by (simp add: outcomes_def range_py_def)

lemma length_outcomes: "length (outcomes net n h) = nat n"
  by (simp add: outcomes_def range_py_def)




subsection \<open>Cells, rows and mail\<close>

lemma dot_in_fmt4: "CHR ''.'' \<in> set (fmt4 x)"
  by (simp add: fmt4_def Let_def)

lemma fmt4_not_Unreachable: "fmt4 x \<noteq> ''Unreachable''"
proof
  assume "fmt4 x = ''Unreachable''"
  then have "CHR ''.'' \<in> set ''Unreachable''" using dot_in_fmt4 [of x] by simp
  then show False by simp
qed

lemma report_row_cell:
  "report_row net clock n h e ! 2 = ''Unreachable'' \<longleftrightarrow> successes (outcomes net n h) = []"
  by (simp add: report_row_def fmt4_not_Unreachable)

lemma map_by_index: "map (\<lambda>i. f (xs ! i)) [0..<length xs] = map f xs"
  by (rule nth_equalityI) simp_all

lemma report_path_nonempty: "report_path t \<noteq> []"
  by (simp add: report_path_def)

lemma send_email_attached:
  assumes "files p = Some d" and "p \<noteq> []"
  shows "\<exists>r. send_email cfg smtp files subject body p recipient = Inr r \<and>
           message r = \<lparr>Subject = subject, From = EMAIL_ADDRESS cfg, To = recipient,
                         content = body, attachments = [(d, basename p)]\<rparr> \<and>
           outbox r = (if smtp (message r) = None then [message r] else [])"
proof (cases "smtp \<lparr>Subject = subject, From = EMAIL_ADDRESS cfg, To = recipient,
                      content = body, attachments = [(d, basename p)]\<rparr>")
  case None
  with assms show ?thesis by (simp add: send_email_def)
next
  case (Some err)
  with assms show ?thesis by (simp add: send_email_def)
qed

subsection \<open>The scenarios, evaluated\<close>

lemma upt5: "[0..<5] = [0, 1, 2, 3, 4::nat]"
  by (simp add: upt_rec)


lemma successes_down: "successes (outcomes net_down 5 h) = []"
  by (simp add: outcomes_def range_py_def upt5 net_down_def)

lemma successes_false:
  "successes (outcomes net_false 5 h) = [PyFalse, PyFalse, PyFalse, PyFalse, PyFalse]"
  by (simp add: outcomes_def range_py_def upt5 net_false_def)

lemma successes_scenario1_A:
  "successes (outcomes net_scenario1 5 0) =
     [PyFloat (1 / 100), PyFloat (2 / 100), PyFloat (1 / 100), PyFloat (3 / 100), PyFloat (1 / 100)]"
  by (simp add: outcomes_def range_py_def upt5 net_scenario1_def)

lemma successes_scenario1_B: "successes (outcomes net_scenario1 5 (Suc 0)) = []"
  by (simp add: outcomes_def range_py_def upt5 net_scenario1_def)


lemma strftime_noon: "strftime_row noon = ''2024-03-09 12:00:07''"
  by (simp add: strftime_row_def noon_def pad4_def pad2_def digit_def)

lemma strftime_ticking:
  "strftime_row (clock_ticking 0) = ''2024-03-09 12:00:07'' \<and>
   strftime_row (clock_ticking (Suc 0)) = ''2024-03-09 12:00:27''"
  by (simp add: strftime_row_def clock_ticking_def noon_def pad4_def pad2_def digit_def)

lemma row_scenario1_A:
  "report_row net_scenario1 clock_fixed 5 0 host_A =
     [''A'', ''1.1.1.1'', ''0.0160'', ''2024-03-09 12:00:07'']"
  by (simp add: report_row_def successes_scenario1_A strftime_noon clock_fixed_def host_A_def
        average_def fmt4_def round_half_even_def pad4_def digit_def dec.simps)

lemma row_scenario1_B:
  "report_row net_scenario1 clock_fixed 5 (Suc 0) host_B =
     [''B'', ''2.2.2.2'', ''Unreachable'', ''2024-03-09 12:00:07'']"
  by (simp add: report_row_def successes_scenario1_B strftime_noon clock_fixed_def host_B_def)

lemma row_false:
  "report_row net_false clock_fixed 5 h host_A =
     [''A'', ''1.1.1.1'', ''0.0000'', ''2024-03-09 12:00:07'']"
  by (simp add: report_row_def successes_false strftime_noon clock_fixed_def host_A_def
        average_def fmt4_def round_half_even_def pad4_def digit_def dec.simps)



lemma outcomes_false:
  "outcomes net_false 5 h =
     [Returns (Some PyFalse), Returns (Some PyFalse), Returns (Some PyFalse),
      Returns (Some PyFalse), Returns (Some PyFalse)]"
  by (simp add: outcomes_def range_py_def upt5 net_false_def)

lemma outcomes_false_then_answer:
  "outcomes net_false_then_answer 5 h =
     [Returns (Some PyFalse), Returns (Some (PyFloat (2 / 100))), Returns None, Returns None,
      Returns None]"
  by (simp add: outcomes_def range_py_def upt5 net_false_then_answer_def)

lemma row_false_then_answer:
  "report_row net_false_then_answer clock_fixed 5 h host_A =
     [''A'', ''1.1.1.1'', ''0.0100'', ''2024-03-09 12:00:07'']"
  by (simp add: report_row_def outcomes_false_then_answer strftime_noon clock_fixed_def host_A_def
        average_def fmt4_def round_half_even_def pad4_def digit_def dec.simps)

lemma fmt4_20ms: "fmt4 (2 / 100) = ''0.0200''"
  by (simp add: fmt4_def round_half_even_def pad4_def digit_def dec.simps)

lemma try_pings_false:
  "try_pings (net_false 0) 0 (range_py 5) ([], idle) =
     (None, [PyFalse, PyFalse, PyFalse, PyFalse, PyFalse],
      \<lparr>all_unreachable = False, writer = [], logging = [],
       pinged = [(0, 0), (0, 1), (0, 2), (0, 3), (0, 4)]\<rparr>)"
  by (simp add: range_py_def upt5 net_false_def idle_def)

section \<open>The claims\<close>

subsection \<open>C1: an exception during one attempt\<close>




subsection \<open>C2: the empty registry\<close>

text \<open>
  Claim C2 says that the empty registry is classified as not all unreachable. The flag
  starts as true and only a value returned by \<open>ping\<close> clears it. Counterexample: on the
  empty registry \<open>ping_ips\<close> returns true.
\<close>

theorem empty_registry_returns_true:
  "all_unreachable (ping_ips net_down clock_fixed [] 5)"
  by (simp add: ping_ips_def)

text \<open>
  Claim C2, amended: for the empty registry \<open>ping_ips\<close> returns true, whatever the network,
  and \<open>generate_report\<close> addresses the error recipient with the error subject.
\<close>

theorem empty_registry_all_unreachable:
  "all_unreachable (ping_ips net clock [] n) \<and>
   (\<exists>r. generate_report cfg net clock smtp t0 [] files = Inr r \<and>
        To (message r) = ERROR_RECIPIENT_EMAIL cfg \<and>
        Subject (message r) = ''Ping Report - Error'')"
  by (simp add: ping_ips_def generate_report_def send_email_def report_path_def Let_def
           split: option.split)

subsection \<open>C3: the flag of a non-empty registry\<close>

text \<open>
  Claim C3 says that for a non-empty registry \<open>ping_ips\<close> returns true if and only if no
  entry had a successful attempt. The source states the same in its docstring: true if all
  IPs are unreachable. The test on line 59 is \<open>is not None\<close>, and it lets the error value
  \<open>False\<close> pass for a response time. At the registry of A and B with every attempt
  returning \<open>False\<close>, no attempt of either entry succeeded, and \<open>ping_ips\<close> returns false.
\<close>

theorem all_False_registry_not_flagged:
  "spec_latencies (outcomes net_false 5 0) = [] \<and>
   spec_latencies (outcomes net_false 5 (Suc 0)) = [] \<and>
   \<not> all_unreachable (ping_ips net_false clock_fixed [host_A, host_B] 5)"
proof -
  have "successes (outcomes net_false 5 0) \<noteq> []"
    by (simp add: outcomes_false)
  then have "\<not> (\<forall>i<length [host_A, host_B]. successes (outcomes net_false 5 i) = [])"
    by auto
  then have "\<not> all_unreachable (ping_ips net_false clock_fixed [host_A, host_B] 5)"
    unfolding ping_ips_flag .
  then show ?thesis by (simp add: outcomes_false)
qed

subsection \<open>C4: the mean of the successful attempts\<close>

text \<open>
  Claim C4 says that the row of an entry shows the mean of the latencies of its successful
  attempts, failures left out, and reads Unreachable when no attempt succeeded. The same
  test lets \<open>False\<close> into \<open>latencies\<close>, where the sum counts it as 0. With the replies
  \<open>False\<close>, 0.02, \<open>None\<close>, \<open>None\<close>, \<open>None\<close> the one successful latency is 0.02, whose mean
  reads 0.0200, and the row shows 0.0100. With every reply \<open>False\<close> no attempt succeeded,
  and the row shows 0.0000 where Unreachable is due.
\<close>

theorem False_reply_enters_mean:
  "spec_latencies (outcomes net_false_then_answer 5 0) = [2 / 100] \<and>
   fmt4 (2 / 100) = ''0.0200'' \<and>
   writer (ping_ips net_false_then_answer clock_fixed [host_A] 5) ! 1 =
     [''A'', ''1.1.1.1'', ''0.0100'', ''2024-03-09 12:00:07''] \<and>
   spec_latencies (outcomes net_false 5 0) = [] \<and>
   writer (ping_ips net_false clock_fixed [host_A] 5) ! 1 =
     [''A'', ''1.1.1.1'', ''0.0000'', ''2024-03-09 12:00:07'']"
proof -
  have "spec_latencies (outcomes net_false_then_answer 5 0) = [2 / 100]"
    by (simp add: outcomes_false_then_answer)
  moreover have "writer (ping_ips net_false_then_answer clock_fixed [host_A] 5) ! 1 =
      [''A'', ''1.1.1.1'', ''0.0100'', ''2024-03-09 12:00:07'']"
    by (simp add: ping_ips_writer row_false_then_answer)
  moreover have "spec_latencies (outcomes net_false 5 0) = []"
    by (simp add: outcomes_false)
  moreover have "writer (ping_ips net_false clock_fixed [host_A] 5) ! 1 =
      [''A'', ''1.1.1.1'', ''0.0000'', ''2024-03-09 12:00:07'']"
    by (simp add: ping_ips_writer row_false)
  ultimately show ?thesis using fmt4_20ms by blast
qed

subsection \<open>C5: the timestamp of a row\<close>

text \<open>
  Claim C5 says that all rows of one cycle carry the same timestamp. The clock is read
  inside the loop, once per entry, after the attempts of that entry. Counterexample: with
  a clock that moves on by twenty seconds between the two entries, the rows carry
  different timestamps.
\<close>

theorem timestamps_differ_within_cycle:
  "writer (ping_ips net_down clock_ticking [host_A, host_B] 5) ! 1 ! 3 = ''2024-03-09 12:00:07'' \<and>
   writer (ping_ips net_down clock_ticking [host_A, host_B] 5) ! 2 ! 3 = ''2024-03-09 12:00:27''"
  by (simp add: ping_ips_writer report_row_def strftime_ticking)

text \<open>
  Claim C5, amended: the row of each entry carries the reading of the clock taken for that
  entry, after its attempts; two rows share a timestamp when their readings do.
\<close>

theorem timestamp_read_per_entry:
  assumes "h < length ips"
  shows "writer (ping_ips net clock ips n) ! Suc h ! 3 = strftime_row (clock h)"
  using assms by (simp add: ping_ips_row report_row_def)

text \<open>Witness for C5: the second entry under the moving clock.\<close>

theorem timestamp_read_per_entry_witness:
  "Suc 0 < length [host_A, host_B] \<and>
   writer (ping_ips net_down clock_ticking [host_A, host_B] 5) ! Suc (Suc 0) ! 3 =
     ''2024-03-09 12:00:27''"
proof -
  have b: "Suc 0 < length [host_A, host_B]" by simp
  show ?thesis
    using timestamp_read_per_entry [OF b, of net_down clock_ticking 5] b
    by (simp only: strftime_ticking simp_thms)
qed

subsection \<open>C6: one row per entry, in registry order\<close>

text \<open>
  Claim C6: whatever the attempts return or raise, the file holds the header and then
  exactly one row per entry of the registry, and the rows name the entries in the order
  of the registry.
\<close>

theorem one_row_per_entry_in_order:
  "length (writer (ping_ips net clock ips n)) = Suc (length ips) \<and>
   map (take 2) (tl (writer (ping_ips net clock ips n))) = map (\<lambda>e. [name e, ip e]) ips"
proof -
  have "map (take 2) (map (\<lambda>i. report_row net clock n i (ips ! i)) [0..<length ips]) =
        map (\<lambda>i. (\<lambda>e. [name e, ip e]) (ips ! i)) [0..<length ips]"
    by (simp add: report_row_def)
  also have "\<dots> = map (\<lambda>e. [name e, ip e]) ips"
    by (rule map_by_index)
  finally show ?thesis by (simp add: ping_ips_writer)
qed

subsection \<open>C7: the recipient of the report\<close>

text \<open>
  Claim C7: \<open>generate_report\<close> builds the message for the error recipient, with the error
  subject and body, exactly when \<open>ping_ips\<close> returned true, and the message for the report
  recipient, with the normal subject and body, exactly when it returned false. In both
  cases the file just written is the one attachment, and the message is handed to the
  server, which takes it unless the transport fails.
\<close>

theorem notification_by_flag:
  "\<exists>r. generate_report cfg net clock smtp t0 ip_addresses files = Inr r \<and>
     ((To (message r) = ERROR_RECIPIENT_EMAIL cfg \<and>
       Subject (message r) = ''Ping Report - Error'' \<and>
       content (message r) = ''All IPs are unreachable or there is no internet access.'')
        = all_unreachable (ping_ips net clock ip_addresses 5)) \<and>
     ((To (message r) = REPORT_RECIPIENT_EMAIL cfg \<and>
       Subject (message r) = ''Network Status Report'' \<and>
       content (message r) = ''Please find attached the latest network status report.'')
        = (\<not> all_unreachable (ping_ips net clock ip_addresses 5))) \<and>
     attachments (message r) =
       [(writer (ping_ips net clock ip_addresses 5), basename (report_path t0))] \<and>
     outbox r = (if smtp (message r) = None then [message r] else [])"
proof -
  let ?c = "ping_ips net clock ip_addresses 5"
  let ?files = "files(report_path t0 \<mapsto> writer ?c)"
  have stored: "?files (report_path t0) = Some (writer ?c)" by simp
  show ?thesis
  proof (cases "all_unreachable ?c")
    case True
    from send_email_attached [of ?files "report_path t0" "writer ?c", OF stored report_path_nonempty]
    obtain r where "send_email cfg smtp ?files ''Ping Report - Error''
          ''All IPs are unreachable or there is no internet access.'' (report_path t0)
          (ERROR_RECIPIENT_EMAIL cfg) = Inr r"
      and "message r = \<lparr>Subject = ''Ping Report - Error'', From = EMAIL_ADDRESS cfg,
             To = ERROR_RECIPIENT_EMAIL cfg,
             content = ''All IPs are unreachable or there is no internet access.'',
             attachments = [(writer ?c, basename (report_path t0))]\<rparr>"
      and "outbox r = (if smtp (message r) = None then [message r] else [])"
      by blast
    with True show ?thesis by (simp add: generate_report_def Let_def)
  next
    case False
    from send_email_attached [of ?files "report_path t0" "writer ?c", OF stored report_path_nonempty]
    obtain r where "send_email cfg smtp ?files ''Network Status Report''
          ''Please find attached the latest network status report.'' (report_path t0)
          (REPORT_RECIPIENT_EMAIL cfg) = Inr r"
      and "message r = \<lparr>Subject = ''Network Status Report'', From = EMAIL_ADDRESS cfg,
             To = REPORT_RECIPIENT_EMAIL cfg,
             content = ''Please find attached the latest network status report.'',
             attachments = [(writer ?c, basename (report_path t0))]\<rparr>"
      and "outbox r = (if smtp (message r) = None then [message r] else [])"
      by blast
    with False show ?thesis by (simp add: generate_report_def Let_def)
  qed
qed

subsection \<open>C8: an exception at another entry\<close>



subsection \<open>C9: a value that is not \<open>None\<close>\<close>

text \<open>
  Claim C9: an attempt that was made and returned a value other than \<open>None\<close>, \<open>False\<close>
  included, counts as a success. The value is in the list of latencies that the loop of
  its entry returns, the loop leaves the flag false, \<open>ping_ips\<close> returns false, and the
  row of the entry shows the mean of that list.
\<close>

theorem non_None_is_success:
  assumes "(h, k) \<in> set (pinged (ping_ips net clock ips n))"
    and "net h k = Returns (Some v)"
    and "try_pings (net h) h (range_py n) ([], s) = (exc, latencies, s1)"
  shows "v \<in> set latencies \<and> \<not> all_unreachable s1 \<and>
         \<not> all_unreachable (ping_ips net clock ips n) \<and>
         writer (ping_ips net clock ips n) ! Suc h =
           [name (ips ! h), ip (ips ! h),
            fmt4 (sum_list (map py_num latencies) / of_nat (length latencies)),
            strftime_row (clock h)]"
proof -
  from assms(1) have h: "h < length ips" and k: "k < issued (outcomes net n h)"
    by (simp_all add: mem_pinged)
  from k issued_le [of "outcomes net n h"] have "k < nat n"
    by (simp add: length_outcomes)
  with assms(2) have "outcomes net n h ! k = Returns (Some v)"
    by (simp add: outcomes_nth)
  with k have v: "v \<in> set (successes (outcomes net n h))"
    by (rule successes_mem)
  then have ne: "successes (outcomes net n h) \<noteq> []" by auto
  from try_pings_latencies [where net = net and h = h, OF assms(3)]
  have lat: "latencies = successes (outcomes net n h)"
    and flag: "all_unreachable s1 = (all_unreachable s \<and> successes (outcomes net n h) = [])"
    by simp_all
  have "\<not> all_unreachable (ping_ips net clock ips n)"
    using h ne by (auto simp: ping_ips_flag)
  moreover have "writer (ping_ips net clock ips n) ! Suc h =
           [name (ips ! h), ip (ips ! h),
            fmt4 (sum_list (map py_num latencies) / of_nat (length latencies)),
            strftime_row (clock h)]"
    using h ne by (simp add: ping_ips_row report_row_def average_def lat)
  ultimately show ?thesis using v ne lat flag by simp
qed

text \<open>
  Witness for C9: every attempt returns \<open>False\<close>. The entry is reported with the mean
  0.0000 and \<open>ping_ips\<close> returns false.
\<close>

theorem non_None_is_success_witness:
  "(0, 0) \<in> set (pinged (ping_ips net_false clock_fixed [host_A] 5)) \<and>
   net_false 0 0 = Returns (Some PyFalse) \<and>
   \<not> all_unreachable (ping_ips net_false clock_fixed [host_A] 5) \<and>
   writer (ping_ips net_false clock_fixed [host_A] 5) ! Suc 0 =
     [''A'', ''1.1.1.1'', ''0.0000'', ''2024-03-09 12:00:07'']"
proof -
  have a: "(0, 0) \<in> set (pinged (ping_ips net_false clock_fixed [host_A] 5))"
    by (simp add: mem_pinged outcomes_def range_py_def upt5 net_false_def)
  have b: "net_false 0 0 = Returns (Some PyFalse)"
    by (simp add: net_false_def)
  have "writer (ping_ips net_false clock_fixed [host_A] 5) ! Suc 0 =
          report_row net_false clock_fixed 5 0 host_A"
    by (simp add: ping_ips_writer)
  then have c: "writer (ping_ips net_false clock_fixed [host_A] 5) ! Suc 0 =
     [''A'', ''1.1.1.1'', ''0.0000'', ''2024-03-09 12:00:07'']"
    by (simp only: row_false)
  from non_None_is_success [OF a b try_pings_false] a b c show ?thesis by blast
qed

subsection \<open>C10: the flag and the report\<close>

text \<open>
  Claim C10: the value returned by \<open>ping_ips\<close> agrees with the file it wrote. It is true
  if and only if every row after the header reads Unreachable in the third column.
\<close>

theorem flag_agrees_with_report:
  "all_unreachable (ping_ips net clock ips n) \<longleftrightarrow>
     (\<forall>row \<in> set (tl (writer (ping_ips net clock ips n))). row ! 2 = ''Unreachable'')"
  by (auto simp: ping_ips_flag ping_ips_writer report_row_cell)

text \<open>
  Witness for C10: scenario 1 has a row with a number and returns false; with every
  attempt timing out all rows read Unreachable and the value is true.
\<close>

theorem flag_agrees_with_report_witness:
  "\<not> all_unreachable (ping_ips net_scenario1 clock_fixed [host_A, host_B] 5) \<and>
   [''A'', ''1.1.1.1'', ''0.0160'', ''2024-03-09 12:00:07'']
     \<in> set (tl (writer (ping_ips net_scenario1 clock_fixed [host_A, host_B] 5))) \<and>
   all_unreachable (ping_ips net_down clock_fixed [host_A, host_B] 5) \<and>
   tl (writer (ping_ips net_down clock_fixed [host_A, host_B] 5)) =
     [[''A'', ''1.1.1.1'', ''Unreachable'', ''2024-03-09 12:00:07''],
      [''B'', ''2.2.2.2'', ''Unreachable'', ''2024-03-09 12:00:07'']]"
proof -
  have a: "[''A'', ''1.1.1.1'', ''0.0160'', ''2024-03-09 12:00:07'']
     \<in> set (tl (writer (ping_ips net_scenario1 clock_fixed [host_A, host_B] 5)))"
    by (simp add: ping_ips_writer row_scenario1_A)
  have "\<not> (\<forall>row \<in> set (tl (writer (ping_ips net_scenario1 clock_fixed [host_A, host_B] 5))).
      row ! 2 = ''Unreachable'')"
  proof
    assume all: "\<forall>row \<in> set (tl (writer (ping_ips net_scenario1 clock_fixed [host_A, host_B] 5))).
      row ! 2 = ''Unreachable''"
    from all a have "[''A'', ''1.1.1.1'', ''0.0160'', ''2024-03-09 12:00:07''] ! 2 = ''Unreachable''"
      by (rule bspec)
    then show False by simp
  qed
  then have b: "\<not> all_unreachable (ping_ips net_scenario1 clock_fixed [host_A, host_B] 5)"
    using flag_agrees_with_report [of net_scenario1 clock_fixed "[host_A, host_B]" 5] by blast
  have d: "tl (writer (ping_ips net_down clock_fixed [host_A, host_B] 5)) =
     [[''A'', ''1.1.1.1'', ''Unreachable'', ''2024-03-09 12:00:07''],
      [''B'', ''2.2.2.2'', ''Unreachable'', ''2024-03-09 12:00:07'']]"
    by (simp add: ping_ips_writer report_row_def successes_down strftime_noon clock_fixed_def
          host_A_def host_B_def)
  then have "\<forall>row \<in> set (tl (writer (ping_ips net_down clock_fixed [host_A, host_B] 5))).
      row ! 2 = ''Unreachable''"
    by simp
  then have c: "all_unreachable (ping_ips net_down clock_fixed [host_A, host_B] 5)"
    using flag_agrees_with_report [of net_down clock_fixed "[host_A, host_B]" 5] by blast
  from a b c d show ?thesis by blast
qed

end
